theory Spec2Isabelle
  imports Main "HOL-Library.Word"
begin

section \<open>Data model\<close>

text \<open>
  A Go \<^verbatim>\<open>[]byte\<close> is a list of 8-bit words. A Go \<^verbatim>\<open>error\<close> result is an
  \<open>error option\<close>: \<open>None\<close> is the nil error. A Go \<^verbatim>\<open>any\<close> argument is an
  \<open>'a option\<close>: \<open>None\<close> is the nil interface value; for the value given to
  \<^verbatim>\<open>Set\<close>, \<open>Some x\<close> is the value \<open>x\<close>; for the pointer given to \<^verbatim>\<open>Get\<close>,
  \<open>Some d\<close> is a pointer to a destination that currently holds \<open>d\<close>, and the
  model returns what the destination holds after the call.
\<close>

type_synonym bytes = "8 word list"

text \<open>
  The error kinds of the repository: the two usage errors of the validation
  package, the two codec errors, \<^verbatim>\<open>mgo.ErrNotFound\<close>, and any other failure the
  engine reports (connection loss, timeout, server error) with its message.
\<close>

datatype error =
    InvalidKeyError
  | InvalidValueError
  | SerializationError
  | DeserializationError
  | ErrNotFound
  | EngineError string

text \<open>\<^verbatim>\<open>context.Context\<close>: the background context, a cancelled one, one with a deadline.\<close>

datatype "context" = Background | Cancelled | WithDeadline nat

text \<open>
  \<^verbatim>\<open>type item struct { K string `bson:"_id"`; V []byte }\<close>: the document stored
  in the collection.
\<close>

record item =
  K :: string
  V :: bytes

text \<open>
  \<^verbatim>\<open>encoding.Codec\<close> is an interface: the client holds whichever implementation
  it was configured with, so the codec is a pair of functions carried by the
  client. \<open>Marshal\<close> gets the \<^verbatim>\<open>any\<close> value and returns the bytes or an error;
  \<open>Unmarshal\<close> gets the bytes and the pointer, and returns its error together
  with what the destination holds afterwards.
\<close>

record 'a Codec =
  Marshal :: "'a option \<Rightarrow> error + bytes"
  Unmarshal :: "bytes \<Rightarrow> 'a option \<Rightarrow> error option \<times> 'a option"

text \<open>
  \<^verbatim>\<open>*mgo.Collection\<close>: the documents of the collection by their \<^verbatim>\<open>_id\<close>, and the
  condition of the session behind it: \<open>fault = Some msg\<close> is a session on which
  every call to the engine fails with that message, \<open>fault = None\<close> a session
  that reaches the server.
\<close>

record Collection =
  docs :: "string \<rightharpoonup> item"
  fault :: "string option"

text \<open>
  \<^verbatim>\<open>type Client struct { c *mgo.Collection; session *mgo.Session; codec encoding.Codec }\<close>.
  Field \<open>coll\<close> is the source's \<^verbatim>\<open>c\<close>; the session is only used by \<^verbatim>\<open>Close\<close>.
\<close>

record 'a Client =
  coll :: Collection
  codec :: "'a Codec"

section \<open>The engine calls\<close>

text \<open>
  The three calls of the mgo driver that the client makes, as the driver
  documents them. \<^verbatim>\<open>UpsertId(id, doc)\<close> replaces the document with that id or
  inserts it. \<^verbatim>\<open>FindId(id).One(result)\<close> returns \<^verbatim>\<open>ErrNotFound\<close> when no
  document has that id. \<^verbatim>\<open>RemoveId(id)\<close> removes the document and returns
  \<^verbatim>\<open>ErrNotFound\<close> when there was none. On a faulty session each of them
  returns the engine's error and changes nothing.
\<close>

definition UpsertId :: "Collection \<Rightarrow> string \<Rightarrow> item \<Rightarrow> error option \<times> Collection" where
  "UpsertId cn ident doc =
     (case fault cn of
        Some msg \<Rightarrow> (Some (EngineError msg), cn)
      | None \<Rightarrow> (None, cn\<lparr>docs := (docs cn)(ident \<mapsto> doc)\<rparr>))"

definition FindId_One :: "Collection \<Rightarrow> string \<Rightarrow> error + item" where
  "FindId_One cn ident =
     (case fault cn of
        Some msg \<Rightarrow> Inl (EngineError msg)
      | None \<Rightarrow> (case docs cn ident of None \<Rightarrow> Inl ErrNotFound | Some doc \<Rightarrow> Inr doc))"

definition RemoveId :: "Collection \<Rightarrow> string \<Rightarrow> error option \<times> Collection" where
  "RemoveId cn ident =
     (case fault cn of
        Some msg \<Rightarrow> (Some (EngineError msg), cn)
      | None \<Rightarrow>
          (case docs cn ident of
             None \<Rightarrow> (Some ErrNotFound, cn)
           | Some doc \<Rightarrow> (None, cn\<lparr>docs := (docs cn)(ident := None)\<rparr>)))"

section \<open>Validation\<close>

text \<open>
  Modelled from the spec: \<^verbatim>\<open>util.CheckKey\<close>, which is not among the source
  files. "CheckKey(key) -> error: fails with InvalidKeyError if key is the
  empty string."
\<close>

definition CheckKey :: "string \<Rightarrow> error option" where
  "CheckKey k = (if k = [] then Some InvalidKeyError else None)"

text \<open>
  Modelled from the spec: \<^verbatim>\<open>util.CheckKeyAndValue\<close>, which is not among the
  source files. "CheckKeyAndValue(key, value) -> error: runs CheckKey, then
  fails with InvalidValueError if value is a nil reference (for writes) or
  value is not a non-nil pointer/addressable destination (for reads)."
\<close>

definition CheckKeyAndValue :: "string \<Rightarrow> 'a option \<Rightarrow> error option" where
  "CheckKeyAndValue k v =
     (case CheckKey k of
        Some err \<Rightarrow> Some err
      | None \<Rightarrow> (case v of None \<Rightarrow> Some InvalidValueError | Some x \<Rightarrow> None))"

section \<open>The MongoDB client\<close>

text \<open>
  Each method returns what the Go method returns and, for the two that write,
  the client with the collection as the call leaves it.
  \<^verbatim>\<open>SetWithContext\<close>: validate, marshal, upsert the item under the key.
\<close>

definition SetWithContext ::
  "'a Client \<Rightarrow> context \<Rightarrow> string \<Rightarrow> 'a option \<Rightarrow> error option \<times> 'a Client" where
  "SetWithContext cl ctx k v =
     (case CheckKeyAndValue k v of
        Some err \<Rightarrow> (Some err, cl)
      | None \<Rightarrow>
          (case Marshal (codec cl) v of
             Inl err \<Rightarrow> (Some err, cl)
           | Inr data \<Rightarrow>
               (case UpsertId (coll cl) k \<lparr>K = k, V = data\<rparr> of
                  (Some err, cn) \<Rightarrow> (Some err, cl\<lparr>coll := cn\<rparr>)
                | (None, cn) \<Rightarrow> (None, cl\<lparr>coll := cn\<rparr>))))"

definition Set :: "'a Client \<Rightarrow> string \<Rightarrow> 'a option \<Rightarrow> error option \<times> 'a Client" where
  "Set cl k v = SetWithContext cl Background k v"

text \<open>
  \<^verbatim>\<open>GetWithContext\<close> returns \<open>(found, err, destination)\<close>: validate, look the
  item up, \<open>(false, nil)\<close> on \<^verbatim>\<open>ErrNotFound\<close>, \<open>(false, err)\<close> on another engine
  error, otherwise \<open>true\<close> with whatever \<open>Unmarshal\<close> returns.
\<close>

definition GetWithContext ::
  "'a Client \<Rightarrow> context \<Rightarrow> string \<Rightarrow> 'a option \<Rightarrow> bool \<times> error option \<times> 'a option" where
  "GetWithContext cl ctx k v =
     (case CheckKeyAndValue k v of
        Some err \<Rightarrow> (False, Some err, v)
      | None \<Rightarrow>
          (case FindId_One (coll cl) k of
             Inl err \<Rightarrow> (if err = ErrNotFound then (False, None, v) else (False, Some err, v))
           | Inr doc \<Rightarrow>
               (case Unmarshal (codec cl) (V doc) v of (err, v') \<Rightarrow> (True, err, v'))))"

definition Get :: "'a Client \<Rightarrow> string \<Rightarrow> 'a option \<Rightarrow> bool \<times> error option \<times> 'a option" where
  "Get cl k v = GetWithContext cl Background k v"

text \<open>
  \<^verbatim>\<open>DeleteWithContext\<close>: validate the key, remove the item; an error other than
  \<^verbatim>\<open>ErrNotFound\<close> (nil included) is returned as it is, \<^verbatim>\<open>ErrNotFound\<close> becomes nil.
\<close>

definition DeleteWithContext ::
  "'a Client \<Rightarrow> context \<Rightarrow> string \<Rightarrow> error option \<times> 'a Client" where
  "DeleteWithContext cl ctx k =
     (case CheckKey k of
        Some err \<Rightarrow> (Some err, cl)
      | None \<Rightarrow>
          (case RemoveId (coll cl) k of
             (err, cn) \<Rightarrow>
               (if err \<noteq> Some ErrNotFound then (err, cl\<lparr>coll := cn\<rparr>)
                else (None, cl\<lparr>coll := cn\<rparr>))))"

definition Delete :: "'a Client \<Rightarrow> string \<Rightarrow> error option \<times> 'a Client" where
  "Delete cl k = DeleteWithContext cl Background k"

section \<open>The JSON codec on strings\<close>

text \<open>
  \<^verbatim>\<open>toJSON\<close> and \<^verbatim>\<open>fromJSON\<close> of \<^verbatim>\<open>storage.go\<close> call \<^verbatim>\<open>json.Marshal\<close> and
  \<^verbatim>\<open>json.Unmarshal\<close> of the Go standard library. This section has those two on
  the values that are Go strings (a Go string is a sequence of bytes, not
  necessarily UTF-8) and on destinations of type \<^verbatim>\<open>*string\<close>, as the
  documentation of \<^verbatim>\<open>encoding/json\<close> and \<^verbatim>\<open>unicode/utf8\<close> gives them: "String
  values encode as JSON strings coerced to valid UTF-8, replacing invalid bytes
  with the Unicode replacement rune", with the HTML escaping of \<open><\<close>, \<open>>\<close>,
  \<open>&\<close>, U+2028 and U+2029, and on reading "invalid UTF-8 or invalid UTF-16
  surrogate pairs are not treated as an error. Instead, they are replaced by
  the Unicode replacement character U+FFFD".

  \<^verbatim>\<open>utf8.DecodeRune\<close>: \<open>rune_len s\<close> is the width of the well-formed UTF-8
  sequence at the head of \<open>s\<close>, and 0 where \<^verbatim>\<open>DecodeRune\<close> reports
  \<^verbatim>\<open>(RuneError, 1)\<close> or \<open>s\<close> is empty. The second byte of a sequence is bounded
  by \<open>lo2\<close> and \<open>hi2\<close> (no overlong forms, no surrogates, nothing above
  U+10FFFF); every later one is a continuation byte.
\<close>

definition lo2 :: "nat \<Rightarrow> nat" where
  "lo2 c0 = (if c0 = 0xE0 then 0xA0 else if c0 = 0xF0 then 0x90 else 0x80)"

definition hi2 :: "nat \<Rightarrow> nat" where
  "hi2 c0 = (if c0 = 0xED then 0x9F else if c0 = 0xF4 then 0x8F else 0xBF)"

definition cont :: "8 word \<Rightarrow> bool" where
  "cont b = (0x80 \<le> unat b \<and> unat b \<le> 0xBF)"

definition rune_len :: "bytes \<Rightarrow> nat" where
  "rune_len s =
     (case s of
        [] \<Rightarrow> 0
      | b0 # s1 \<Rightarrow>
          (let c0 = unat b0 in
           if c0 < 0x80 then 1
           else if c0 < 0xC2 \<or> 0xF4 < c0 then 0
           else
             (case s1 of
                [] \<Rightarrow> 0
              | b1 # s2 \<Rightarrow>
                  if \<not> (lo2 c0 \<le> unat b1 \<and> unat b1 \<le> hi2 c0) then 0
                  else if c0 < 0xE0 then 2
                  else
                    (case s2 of
                       [] \<Rightarrow> 0
                     | b2 # s3 \<Rightarrow>
                         if \<not> cont b2 then 0
                         else if c0 < 0xF0 then 3
                         else (case s3 of [] \<Rightarrow> 0 | b3 # s4 \<Rightarrow> if cont b3 then 4 else 0)))))"

text \<open>
  The encoder of a string value (with \<^verbatim>\<open>escapeHTML\<close> set, as \<^verbatim>\<open>json.Marshal\<close>
  has it). \<open>encode_step s\<close> is one turn of its loop at the head of \<open>s\<close>: what is
  written and how many bytes of \<open>s\<close> are consumed. An ASCII byte is copied,
  except that the quote and the backslash get a backslash, newline, carriage
  return and tab their short escapes, and the other control characters and
  \<open><\<close>, \<open>>\<close>, \<open>&\<close> a four-digit hex escape; a byte that starts no well-formed
  UTF-8 sequence is written as the escape of U+FFFD; U+2028 and U+2029 are
  written as escapes; any other well-formed sequence is copied.
\<close>

definition hex :: "nat \<Rightarrow> 8 word" where
  "hex d = (if d < 10 then of_nat (0x30 + d) else of_nat (0x57 + d))"

definition encode_step :: "bytes \<Rightarrow> bytes \<times> nat" where
  "encode_step s =
     (case s of
        [] \<Rightarrow> ([], 1)
      | b # bs \<Rightarrow>
          (let c = unat b in
           if c < 0x80 then
             (if 0x20 \<le> c \<and> c \<noteq> 0x22 \<and> c \<noteq> 0x5C \<and> c \<noteq> 0x3C \<and> c \<noteq> 0x3E \<and> c \<noteq> 0x26
              then ([b], 1)
              else if c = 0x22 \<or> c = 0x5C then ([0x5C, b], 1)
              else if c = 0x0A then ([0x5C, 0x6E], 1)
              else if c = 0x0D then ([0x5C, 0x72], 1)
              else if c = 0x09 then ([0x5C, 0x74], 1)
              else ([0x5C, 0x75, 0x30, 0x30, hex (c div 16), hex (c mod 16)], 1))
           else
             (let n = rune_len s in
              if n = 0 then ([0x5C, 0x75, 0x66, 0x66, 0x66, 0x64], 1)
              else if take 3 s = [0xE2, 0x80, 0xA8] then ([0x5C, 0x75, 0x32, 0x30, 0x32, 0x38], 3)
              else if take 3 s = [0xE2, 0x80, 0xA9] then ([0x5C, 0x75, 0x32, 0x30, 0x32, 0x39], 3)
              else (take n s, n))))"

text \<open>The loop itself, from the first byte to the end of the string.\<close>

function encode_string :: "bytes \<Rightarrow> bytes" where
  "encode_string s = (if s = [] then [] else fst (encode_step s) @ encode_string (drop (snd (encode_step s)) s))"
  by pat_completeness auto
termination
  by (relation "measure length")
    (auto simp add: encode_step_def Let_def split: list.splits if_splits)

declare encode_string.simps [simp del]

text \<open>
  The decoder of a string literal. \<open>getu4\<close> reads a four-digit hex escape
  at the head of its argument (either case of the hex digits); \<^verbatim>\<open>utf8.EncodeRune\<close> writes a code
  point as UTF-8 and a surrogate or out-of-range one as U+FFFD.
\<close>

definition hexval :: "8 word \<Rightarrow> nat option" where
  "hexval b =
     (let c = unat b in
      if 0x30 \<le> c \<and> c \<le> 0x39 then Some (c - 0x30)
      else if 0x61 \<le> c \<and> c \<le> 0x66 then Some (c - 0x57)
      else if 0x41 \<le> c \<and> c \<le> 0x46 then Some (c - 0x37)
      else None)"

definition getu4 :: "bytes \<Rightarrow> nat option" where
  "getu4 s =
     (case s of
        a # u # h1 # h2 # h3 # h4 # rest \<Rightarrow>
          (if unat a = 0x5C \<and> unat u = 0x75 then
             (case (hexval h1, hexval h2, hexval h3, hexval h4) of
                (Some d1, Some d2, Some d3, Some d4) \<Rightarrow> Some (((d1 * 16 + d2) * 16 + d3) * 16 + d4)
              | _ \<Rightarrow> None)
           else None)
      | _ \<Rightarrow> None)"

definition EncodeRune :: "nat \<Rightarrow> bytes" where
  "EncodeRune r =
     (if r < 0x80 then [of_nat r]
      else if r < 0x800 then [of_nat (0xC0 + r div 64), of_nat (0x80 + r mod 64)]
      else if (0xD800 \<le> r \<and> r < 0xE000) \<or> 0x10FFFF < r then [0xEF, 0xBF, 0xBD]
      else if r < 0x10000 then
        [of_nat (0xE0 + r div 4096), of_nat (0x80 + r div 64 mod 64), of_nat (0x80 + r mod 64)]
      else
        [of_nat (0xF0 + r div 262144), of_nat (0x80 + r div 4096 mod 64),
         of_nat (0x80 + r div 64 mod 64), of_nat (0x80 + r mod 64)])"

text \<open>
  \<open>unquote_step s\<close> is one turn of the decoder's loop at the head of \<open>s\<close>, the
  bytes after the opening quote: the closing quote (\<open>Stop\<close>), a malformed
  literal (\<open>Bad\<close>: unterminated, a control character, an unknown escape), or
  the bytes to write and the number of bytes consumed. A high surrogate
  followed by a low one gives the code point of the pair, any other surrogate
  U+FFFD; a byte that starts no well-formed UTF-8 sequence gives U+FFFD.
\<close>

datatype step = Bad | Stop | Emit bytes nat

definition unquote_step :: "bytes \<Rightarrow> step" where
  "unquote_step s =
     (case s of
        [] \<Rightarrow> Bad
      | b # bs \<Rightarrow>
          (let c = unat b in
           if c = 0x22 then Stop
           else if c = 0x5C then
             (case bs of
                [] \<Rightarrow> Bad
              | e # rest \<Rightarrow>
                  (let x = unat e in
                   if x = 0x22 \<or> x = 0x5C \<or> x = 0x2F then Emit [e] 2
                   else if x = 0x62 then Emit [0x08] 2
                   else if x = 0x66 then Emit [0x0C] 2
                   else if x = 0x6E then Emit [0x0A] 2
                   else if x = 0x72 then Emit [0x0D] 2
                   else if x = 0x74 then Emit [0x09] 2
                   else if x = 0x75 then
                     (case getu4 s of
                        None \<Rightarrow> Bad
                      | Some r \<Rightarrow>
                          if 0xD800 \<le> r \<and> r < 0xE000 then
                            (case getu4 (drop 6 s) of
                               None \<Rightarrow> Emit [0xEF, 0xBF, 0xBD] 6
                             | Some r2 \<Rightarrow>
                                 if r < 0xDC00 \<and> 0xDC00 \<le> r2 \<and> r2 < 0xE000
                                 then Emit (EncodeRune ((r - 0xD800) * 1024 + (r2 - 0xDC00) + 0x10000)) 12
                                 else Emit [0xEF, 0xBF, 0xBD] 6)
                          else Emit (EncodeRune r) 6)
                   else Bad))
           else if c < 0x20 then Bad
           else if c < 0x80 then Emit [b] 1
           else (let n = rune_len s in if n = 0 then Emit [0xEF, 0xBF, 0xBD] 1 else Emit (take n s) n)))"

text \<open>The loop: the decoded string and what follows the closing quote.\<close>

function unquote :: "bytes \<Rightarrow> (bytes \<times> bytes) option" where
  "unquote s =
     (case unquote_step s of
        Bad \<Rightarrow> None
      | Stop \<Rightarrow> Some ([], tl s)
      | Emit out n \<Rightarrow>
          (case unquote (drop n s) of None \<Rightarrow> None | Some (w, r) \<Rightarrow> Some (out @ w, r)))"
  by pat_completeness auto
termination
proof (relation "measure length")
  show "wf (measure length)" by simp
next
  fix s :: bytes and out :: bytes and n :: nat
  assume st: "unquote_step s = Emit out n"
  have "unquote_step s \<noteq> Emit out 0"
    by (simp add: unquote_step_def Let_def split: list.split option.split)
  with st have pos: "0 < n" by (cases n) auto
  have "s \<noteq> []" using st by (auto simp add: unquote_step_def)
  with pos show "(drop n s, s) \<in> measure length" by simp
qed

declare unquote.simps [simp del]

text \<open>
  \<^verbatim>\<open>json.Marshal\<close> of a string is the quoted encoding, of nil the literal
  \<^verbatim>\<open>null\<close>; neither fails. \<^verbatim>\<open>json.Unmarshal\<close> into a \<^verbatim>\<open>*string\<close> refuses a nil
  pointer; it skips white space around the value, decodes a string literal into
  the destination, leaves the destination alone on \<^verbatim>\<open>null\<close>, and returns an
  error, the destination unchanged, on anything else (a syntax error, or a
  value of another JSON type).
\<close>

definition isSpace :: "8 word \<Rightarrow> bool" where
  "isSpace b = (unat b = 0x20 \<or> unat b = 0x09 \<or> unat b = 0x0D \<or> unat b = 0x0A)"

definition json_Marshal :: "bytes option \<Rightarrow> error + bytes" where
  "json_Marshal v =
     (case v of
        None \<Rightarrow> Inr [0x6E, 0x75, 0x6C, 0x6C]
      | Some s \<Rightarrow> Inr (0x22 # encode_string s @ [0x22]))"

definition json_Unmarshal :: "bytes \<Rightarrow> bytes option \<Rightarrow> error option \<times> bytes option" where
  "json_Unmarshal data v =
     (case v of
        None \<Rightarrow> (Some DeserializationError, None)
      | Some d \<Rightarrow>
          (let t = dropWhile isSpace data in
           case t of
             [] \<Rightarrow> (Some DeserializationError, v)
           | b # bs \<Rightarrow>
               if unat b = 0x22 then
                 (case unquote bs of
                    None \<Rightarrow> (Some DeserializationError, v)
                  | Some (w, r) \<Rightarrow>
                      if list_all isSpace r then (None, Some w) else (Some DeserializationError, v))
               else if take 4 t = [0x6E, 0x75, 0x6C, 0x6C] \<and> list_all isSpace (drop 4 t)
               then (None, v)
               else (Some DeserializationError, v)))"

text \<open>
  \<^verbatim>\<open>func toJSON(v interface{}) ([]byte, error) { return json.Marshal(v) }\<close> and
  \<^verbatim>\<open>func fromJSON(data []byte, v interface{}) error { return json.Unmarshal(data, v) }\<close>.
\<close>

definition toJSON :: "bytes option \<Rightarrow> error + bytes" where
  "toJSON v = json_Marshal v"

definition fromJSON :: "bytes \<Rightarrow> bytes option \<Rightarrow> error option \<times> bytes option" where
  "fromJSON data v = json_Unmarshal data v"



section \<open>Concrete instances\<close>

text \<open>
  A codec for the concrete instances below: values are byte strings, and the
  encoding is the value itself. The empty string and a string whose first byte
  is zero are not encodable; a payload whose first byte is zero does not decode,
  and the decoder has already written the rest of the payload to the
  destination when it reports that; a nil value does not encode and a nil
  pointer cannot be decoded into.
\<close>

definition raw_codec :: "bytes Codec" where
  "raw_codec =
     \<lparr>Marshal = (\<lambda>v. case v of
          None \<Rightarrow> Inl SerializationError
        | Some [] \<Rightarrow> Inl SerializationError
        | Some (b # bs) \<Rightarrow> if b = 0 then Inl SerializationError else Inr (b # bs)),
      Unmarshal = (\<lambda>data p. case p of
          None \<Rightarrow> (Some DeserializationError, None)
        | Some d \<Rightarrow>
            (case data of
               [] \<Rightarrow> (Some DeserializationError, Some d)
             | b # bs \<Rightarrow>
                 if b = 0 then (Some DeserializationError, Some bs) else (None, Some data)))\<rparr>"

text \<open>A client on an empty collection, as \<^verbatim>\<open>NewClient\<close> gives on a new database.\<close>

definition fresh :: "bytes Client" where
  "fresh = \<lparr>coll = \<lparr>docs = Map.empty, fault = None\<rparr>, codec = raw_codec\<rparr>"

text \<open>A client on a collection with one entry, under the key \<open>''a''\<close>.\<close>

definition one_entry :: "bytes Client" where
  "one_entry =
     \<lparr>coll = \<lparr>docs = [''a'' \<mapsto> \<lparr>K = ''a'', V = [1]\<rparr>], fault = None\<rparr>,
      codec = raw_codec\<rparr>"

text \<open>
  A client on a collection whose entry under \<open>''a''\<close> holds a payload that its
  codec does not decode (one written by a client with another codec).
\<close>

definition garbled :: "bytes Client" where
  "garbled =
     \<lparr>coll = \<lparr>docs = [''a'' \<mapsto> \<lparr>K = ''a'', V = [0, 7]\<rparr>], fault = None\<rparr>,
      codec = raw_codec\<rparr>"

text \<open>
  A client on an empty collection with the JSON codec, the default of
  \<^verbatim>\<open>NewClient\<close>, on string values: \<^verbatim>\<open>json.Marshal\<close> and \<^verbatim>\<open>json.Unmarshal\<close>
  as \<open>toJSON\<close> and \<open>fromJSON\<close> call them.
\<close>

definition json_fresh :: "bytes Client" where
  "json_fresh =
     \<lparr>coll = \<lparr>docs = Map.empty, fault = None\<rparr>,
      codec = \<lparr>Marshal = toJSON, Unmarshal = fromJSON\<rparr>\<rparr>"

section \<open>What each method does on valid arguments\<close>

lemma CheckKeyAndValue_ok: "k \<noteq> [] \<Longrightarrow> CheckKeyAndValue k (Some x) = None"
  by (simp add: CheckKeyAndValue_def CheckKey_def)

lemma Set_fault: "fault (coll (snd (Set cl k v))) = fault (coll cl)"
  by (simp add: Set_def SetWithContext_def UpsertId_def split: option.splits sum.splits)

lemma Set_codec: "codec (snd (Set cl k v)) = codec cl"
  by (simp add: Set_def SetWithContext_def UpsertId_def
      split: option.splits sum.splits prod.splits)

lemma Set_ok:
  "k \<noteq> [] \<Longrightarrow> fault (coll cl) = None \<Longrightarrow> Marshal (codec cl) (Some x) = Inr data \<Longrightarrow>
   Set cl k (Some x) =
     (None, cl\<lparr>coll := (coll cl)\<lparr>docs := (docs (coll cl))(k \<mapsto> \<lparr>K = k, V = data\<rparr>)\<rparr>\<rparr>)"
  by (simp add: Set_def SetWithContext_def UpsertId_def CheckKeyAndValue_ok)

lemma Delete_absent:
  "k \<noteq> [] \<Longrightarrow> fault (coll cl) = None \<Longrightarrow> docs (coll cl) k = None \<Longrightarrow> Delete cl k = (None, cl)"
  by (simp add: Delete_def DeleteWithContext_def CheckKey_def RemoveId_def)

lemma Delete_present:
  "k \<noteq> [] \<Longrightarrow> fault (coll cl) = None \<Longrightarrow> docs (coll cl) k = Some doc \<Longrightarrow>
   Delete cl k = (None, cl\<lparr>coll := (coll cl)\<lparr>docs := (docs (coll cl))(k := None)\<rparr>\<rparr>)"
  by (simp add: Delete_def DeleteWithContext_def CheckKey_def RemoveId_def)

lemma Delete_result:
  assumes "k \<noteq> []" and "fault (coll cl) = None"
  shows "fst (Delete cl k) = None
     \<and> fault (coll (snd (Delete cl k))) = None
     \<and> docs (coll (snd (Delete cl k))) k = None
     \<and> codec (snd (Delete cl k)) = codec cl"
proof (cases "docs (coll cl) k")
  case None
  then show ?thesis using assms by (simp add: Delete_absent)
next
  case (Some doc)
  then show ?thesis using assms by (simp add: Delete_present)
qed

section \<open>The JSON codec: one turn of the encoder is undone by one turn of the decoder\<close>






















lemma toJSON_invalid_byte:
  "toJSON (Some [0xFF]) = Inr [0x22, 0x5C, 0x75, 0x66, 0x66, 0x66, 0x64, 0x22]"
  by (simp add: toJSON_def json_Marshal_def encode_string.simps encode_step_def rune_len_def)

lemma fromJSON_replacement:
  "fromJSON [0x22, 0x5C, 0x75, 0x66, 0x66, 0x66, 0x64, 0x22] (Some d)
     = (None, Some [0xEF, 0xBF, 0xBD])"
  by (simp add: fromJSON_def json_Unmarshal_def isSpace_def unquote.simps unquote_step_def
      getu4_def hexval_def EncodeRune_def)

section \<open>Absent keys\<close>

text \<open>
  C1. For every key \<open>k\<close> that is absent from the store, \<^verbatim>\<open>Get(s, k, outPointer)\<close>
  returns \<open>(false, nil)\<close>: found is false and the error is nil. A key is a
  non-empty string and \<^verbatim>\<open>outPointer\<close> a non-nil pointer, as the data model has
  them, and the session reaches the server (an engine failure is the one
  other error \<^verbatim>\<open>Get\<close> can return). The destination is returned as it was.
\<close>

theorem get_absent_key:
  assumes "k \<noteq> []" and "fault (coll cl) = None" and "docs (coll cl) k = None"
  shows "Get cl k (Some d) = (False, None, Some d)"
  using assms by (simp add: Get_def GetWithContext_def FindId_One_def CheckKeyAndValue_ok)

theorem get_absent_key_witness:
  "''a'' \<noteq> [] \<and> fault (coll fresh) = None \<and> docs (coll fresh) ''a'' = None
   \<and> Get fresh ''a'' (Some [9]) = (False, None, Some [9])"
proof -
  have h1: "''a'' \<noteq> []" by simp
  have h2: "fault (coll fresh) = None" by (simp add: fresh_def)
  have h3: "docs (coll fresh) ''a'' = None" by (simp add: fresh_def)
  show ?thesis using get_absent_key [OF h1 h2 h3, of "[9]"] h2 h3 by simp
qed

section \<open>Overwriting\<close>

lemma Set_twice_json:
  "Set (snd (Set json_fresh ''a'' (Some [0x61]))) ''a'' (Some [0xFF])
     = (None, json_fresh\<lparr>coll := \<lparr>docs = [''a'' \<mapsto>
          \<lparr>K = ''a'', V = [0x22, 0x5C, 0x75, 0x66, 0x66, 0x66, 0x64, 0x22]\<rparr>], fault = None\<rparr>\<rparr>)"
proof -
  have f: "fault (coll json_fresh) = None" by (simp add: json_fresh_def)
  have c: "codec (snd (Set json_fresh ''a'' (Some [0x61]))) = codec json_fresh"
    by (rule Set_codec)
  have m: "Marshal (codec (snd (Set json_fresh ''a'' (Some [0x61])))) (Some [0xFF])
      = Inr [0x22, 0x5C, 0x75, 0x66, 0x66, 0x66, 0x64, 0x22]"
    unfolding c using toJSON_invalid_byte by (simp add: json_fresh_def)
  have f1: "fault (coll (snd (Set json_fresh ''a'' (Some [0x61])))) = None"
    using f by (simp add: Set_fault)
  have m0: "Marshal (codec json_fresh) (Some [0x61]) = Inr [0x22, 0x61, 0x22]"
    by (simp add: json_fresh_def toJSON_def json_Marshal_def encode_string.simps
        encode_step_def)
  have s1: "snd (Set json_fresh ''a'' (Some [0x61]))
      = json_fresh\<lparr>coll := \<lparr>docs = [''a'' \<mapsto> \<lparr>K = ''a'', V = [0x22, 0x61, 0x22]\<rparr>],
          fault = None\<rparr>\<rparr>"
    using Set_ok [OF _ f m0, of "''a''"] by (simp add: json_fresh_def)
  show ?thesis
    using Set_ok [OF _ f1 m, of "''a''"] by (simp add: s1)
qed

text \<open>
  C2 as stated, on the client with the JSON codec, at the key \<open>''a''\<close> and the
  values \<open>v1\<close> the string of the byte \<open>0x61\<close> and \<open>v2\<close> the string of the byte
  \<open>0xFF\<close>: both \<^verbatim>\<open>Set\<close> calls return nil and \<^verbatim>\<open>Get\<close> returns \<open>(true, nil)\<close>,
  but the destination holds the three bytes of U+FFFD and not \<open>v2\<close>.
\<close>

theorem set_set_get_counterexample:
  "fst (Set json_fresh ''a'' (Some [0x61])) = None
   \<and> fst (Set (snd (Set json_fresh ''a'' (Some [0x61]))) ''a'' (Some [0xFF])) = None
   \<and> Get (snd (Set (snd (Set json_fresh ''a'' (Some [0x61]))) ''a'' (Some [0xFF]))) ''a''
        (Some []) = (True, None, Some [0xEF, 0xBF, 0xBD])
   \<and> [0xEF, 0xBF, 0xBD] \<noteq> [0xFF :: 8 word]"
proof -
  have f: "fault (coll json_fresh) = None" by (simp add: json_fresh_def)
  have m0: "Marshal (codec json_fresh) (Some [0x61]) = Inr [0x22, 0x61, 0x22]"
    by (simp add: json_fresh_def toJSON_def json_Marshal_def encode_string.simps
        encode_step_def)
  have a: "fst (Set json_fresh ''a'' (Some [0x61])) = None"
    using Set_ok [OF _ f m0, of "''a''"] by simp
  have g: "Get (snd (Set (snd (Set json_fresh ''a'' (Some [0x61]))) ''a'' (Some [0xFF]))) ''a''
        (Some []) = (True, None, Some [0xEF, 0xBF, 0xBD])"
    unfolding Set_twice_json snd_conv
    using fromJSON_replacement [of "[]"]
    by (simp add: Get_def GetWithContext_def FindId_One_def CheckKeyAndValue_ok
        json_fresh_def)
  show ?thesis using a g by (simp add: Set_twice_json)
qed

text \<open>
  C2, amended. For every store, key \<open>k\<close> (non-empty), argument \<open>v1\<close> and value
  \<open>v2\<close> that the codec marshals, on a session that reaches the server: after
  \<^verbatim>\<open>Set(s,k,v1)\<close> and then \<^verbatim>\<open>Set(s,k,v2)\<close>, the second \<^verbatim>\<open>Set\<close> has returned nil
  and the store is the one that \<^verbatim>\<open>Set(s,k,v2)\<close> alone gives (the entry is
  overwritten in place, nothing of the first is kept); \<^verbatim>\<open>Get(s,k)\<close> returns
  found = true with the error and the destination that the codec's
  \<open>Unmarshal\<close> gives on the payload of \<open>v2\<close>; so it returns \<open>(true, nil)\<close> with
  \<open>v2\<close> in the destination whenever the codec unmarshals that payload to \<open>v2\<close>.
\<close>

theorem set_set_get_overwrites:
  assumes "k \<noteq> []" and "fault (coll cl) = None"
    and "Marshal (codec cl) (Some v2) = Inr data"
  shows "fst (Set (snd (Set cl k v1)) k (Some v2)) = None
     \<and> snd (Set (snd (Set cl k v1)) k (Some v2)) = snd (Set cl k (Some v2))
     \<and> Get (snd (Set (snd (Set cl k v1)) k (Some v2))) k (Some d)
         = (True, Unmarshal (codec cl) data (Some d))
     \<and> (Unmarshal (codec cl) data (Some d) = (None, Some v2) \<longrightarrow>
         Get (snd (Set (snd (Set cl k v1)) k (Some v2))) k (Some d) = (True, None, Some v2))"
proof -
  let ?c1 = "snd (Set cl k v1)"
  have f1: "fault (coll ?c1) = None" using assms(2) by (simp add: Set_fault)
  have m1: "Marshal (codec ?c1) (Some v2) = Inr data" using assms(3) by (simp add: Set_codec)
  have s2: "Set ?c1 k (Some v2) =
      (None, ?c1\<lparr>coll := (coll ?c1)\<lparr>docs := (docs (coll ?c1))(k \<mapsto> \<lparr>K = k, V = data\<rparr>)\<rparr>\<rparr>)"
    using Set_ok [OF assms(1) f1 m1] .
  have s0: "Set cl k (Some v2) =
      (None, cl\<lparr>coll := (coll cl)\<lparr>docs := (docs (coll cl))(k \<mapsto> \<lparr>K = k, V = data\<rparr>)\<rparr>\<rparr>)"
    using Set_ok [OF assms(1) assms(2) assms(3)] .
  have g: "Get (snd (Set ?c1 k (Some v2))) k (Some d) = (True, Unmarshal (codec cl) data (Some d))"
    using assms(1) f1
    by (simp add: s2 Get_def GetWithContext_def FindId_One_def CheckKeyAndValue_ok Set_codec
        split: prod.split)
  have same: "snd (Set ?c1 k (Some v2)) = snd (Set cl k (Some v2))"
    unfolding s2 s0
    by (auto simp add: Set_def SetWithContext_def UpsertId_def assms(2)
        split: option.splits sum.splits prod.splits)
  have e: "fst (Set ?c1 k (Some v2)) = None" by (simp add: s2)
  show ?thesis using e same g by simp
qed

theorem set_set_get_overwrites_witness:
  "''a'' \<noteq> [] \<and> fault (coll fresh) = None
   \<and> Marshal (codec fresh) (Some [2]) = Inr [2]
   \<and> Unmarshal (codec fresh) [2] (Some [9]) = (None, Some [2])
   \<and> fst (Set (snd (Set fresh ''a'' (Some [1]))) ''a'' (Some [2])) = None
   \<and> snd (Set (snd (Set fresh ''a'' (Some [1]))) ''a'' (Some [2]))
       = snd (Set fresh ''a'' (Some [2]))
   \<and> Get (snd (Set (snd (Set fresh ''a'' (Some [1]))) ''a'' (Some [2]))) ''a'' (Some [9])
       = (True, None, Some [2])"
proof -
  have h1: "''a'' \<noteq> []" by simp
  have h2: "fault (coll fresh) = None" by (simp add: fresh_def)
  have h3: "Marshal (codec fresh) (Some [2]) = Inr [2]" by (simp add: fresh_def raw_codec_def)
  have h4: "Unmarshal (codec fresh) [2] (Some [9]) = (None, Some [2])"
    by (simp add: fresh_def raw_codec_def)
  show ?thesis
    using set_set_get_overwrites [OF h1 h2 h3, of "Some [1]" "[9]"] h1 h2 h3 h4 by blast
qed

section \<open>The round trip of the codec\<close>




section \<open>Validation\<close>

text \<open>
  C3. For every value \<open>v\<close> and destination \<open>out\<close>, \<^verbatim>\<open>Set(s, "", v)\<close> and
  \<^verbatim>\<open>Get(s, "", &out)\<close> both fail with the invalid-key error, and
  \<^verbatim>\<open>Set(s, k, nil)\<close> fails with the invalid-value error for every key \<open>k\<close> (a
  key is a non-empty string). Each of the three leaves the store, and \<^verbatim>\<open>Get\<close>
  the destination, as it was.
\<close>

theorem validation_law:
  "Set cl [] v = (Some InvalidKeyError, cl)
   \<and> Get cl [] out = (False, Some InvalidKeyError, out)
   \<and> (k \<noteq> [] \<longrightarrow> Set cl k None = (Some InvalidValueError, cl))"
  by (simp add: Set_def Get_def SetWithContext_def GetWithContext_def CheckKeyAndValue_def
      CheckKey_def)

theorem validation_law_witness:
  "''a'' \<noteq> [] \<and> Set fresh ''a'' None = (Some InvalidValueError, fresh)
   \<and> Set fresh [] (Some [1]) = (Some InvalidKeyError, fresh)
   \<and> Get fresh [] (Some [9]) = (False, Some InvalidKeyError, Some [9])"
  using validation_law [of fresh "Some [1]" "Some [9]" "''a''"] by simp

text \<open>
  C7. When the arguments of \<^verbatim>\<open>Set\<close>, \<^verbatim>\<open>Get\<close> or \<^verbatim>\<open>Delete\<close> fail validation, the
  method returns the very error the validation gave, and the store (for \<^verbatim>\<open>Get\<close>
  the destination too) is what it was before the call. This holds on every
  client, one with a faulty session included: the engine is not asked.
\<close>

theorem validation_failure_changes_nothing:
  "(CheckKeyAndValue k v = Some e \<longrightarrow> Set cl k v = (Some e, cl))
   \<and> (CheckKeyAndValue k out = Some e \<longrightarrow> Get cl k out = (False, Some e, out))
   \<and> (CheckKey k = Some e \<longrightarrow> Delete cl k = (Some e, cl))"
  by (simp add: Set_def Get_def Delete_def SetWithContext_def GetWithContext_def
      DeleteWithContext_def)

theorem validation_failure_changes_nothing_witness:
  "CheckKeyAndValue [] (Some [1::8 word]) = Some InvalidKeyError
   \<and> Set fresh [] (Some [1]) = (Some InvalidKeyError, fresh)
   \<and> CheckKeyAndValue ''a'' (None :: bytes option) = Some InvalidValueError
   \<and> Get fresh ''a'' None = (False, Some InvalidValueError, None)
   \<and> CheckKey [] = Some InvalidKeyError
   \<and> Delete one_entry [] = (Some InvalidKeyError, one_entry)"
proof -
  have h1: "CheckKeyAndValue [] (Some [1::8 word]) = Some InvalidKeyError"
    by (simp add: CheckKeyAndValue_def CheckKey_def)
  have h2: "CheckKeyAndValue ''a'' (None :: bytes option) = Some InvalidValueError"
    by (simp add: CheckKeyAndValue_def CheckKey_def)
  have h3: "CheckKey [] = Some InvalidKeyError" by (simp add: CheckKey_def)
  show ?thesis
    using validation_failure_changes_nothing [of "[]" "Some [1]" InvalidKeyError fresh]
      validation_failure_changes_nothing [of "''a''" _ InvalidValueError fresh None]
      validation_failure_changes_nothing [of "[]" _ InvalidKeyError one_entry]
      h1 h2 h3
    by simp
qed

section \<open>The destination and the found flag\<close>

text \<open>
  C5. Whenever \<^verbatim>\<open>Get\<close> returns found = false, the destination that
  \<^verbatim>\<open>outPointer\<close> points to is exactly what it was before the call, for every
  client, key and pointer, and whatever the error returned.
\<close>

theorem get_not_found_leaves_destination:
  assumes "fst (Get cl k out) = False"
  shows "snd (snd (Get cl k out)) = out"
  using assms
  by (auto simp add: Get_def GetWithContext_def split: option.splits sum.splits prod.splits
      if_splits)

theorem get_not_found_leaves_destination_witness:
  "fst (Get fresh ''a'' (Some [9])) = False \<and> snd (snd (Get fresh ''a'' (Some [9]))) = Some [9]"
proof -
  have h: "fst (Get fresh ''a'' (Some [9])) = False"
    by (simp add: Get_def GetWithContext_def FindId_One_def CheckKeyAndValue_def CheckKey_def
        fresh_def)
  show ?thesis using get_not_found_leaves_destination [OF h] h by simp
qed

text \<open>
  C8. \<^verbatim>\<open>Get\<close> returns the pair \<open>(false, nil)\<close> only when validation has passed and
  the key has no entry in the collection; and when the key has an entry whose
  payload the codec fails to unmarshal, \<^verbatim>\<open>Get\<close> returns found = true and the
  codec's error, which is not nil: neither a validation failure nor a codec
  failure comes back as not found.
\<close>

theorem get_not_found_only_when_absent:
  "(fst (Get cl k out) = False \<and> fst (snd (Get cl k out)) = None \<longrightarrow>
      CheckKeyAndValue k out = None \<and> docs (coll cl) k = None \<and> fault (coll cl) = None)
   \<and> (CheckKeyAndValue k out = None \<and> fault (coll cl) = None \<and> docs (coll cl) k = Some doc
        \<and> fst (Unmarshal (codec cl) (V doc) out) = Some e \<longrightarrow>
      fst (Get cl k out) = True \<and> fst (snd (Get cl k out)) = Some e)"
  by (auto simp add: Get_def GetWithContext_def FindId_One_def
      split: option.splits sum.splits prod.splits if_splits)

theorem get_not_found_only_when_absent_witness:
  "fst (Get fresh ''a'' (Some [9])) = False \<and> fst (snd (Get fresh ''a'' (Some [9]))) = None
   \<and> docs (coll fresh) ''a'' = None
   \<and> CheckKeyAndValue ''a'' (Some [9::8 word]) = None \<and> fault (coll garbled) = None
   \<and> docs (coll garbled) ''a'' = Some \<lparr>K = ''a'', V = [0, 7]\<rparr>
   \<and> fst (Unmarshal (codec garbled) (V \<lparr>K = ''a'', V = [0, 7]\<rparr>) (Some [9]))
       = Some DeserializationError
   \<and> fst (Get garbled ''a'' (Some [9])) = True
   \<and> fst (snd (Get garbled ''a'' (Some [9]))) = Some DeserializationError"
proof -
  have h1: "fst (Get fresh ''a'' (Some [9])) = False
      \<and> fst (snd (Get fresh ''a'' (Some [9]))) = None"
    by (simp add: Get_def GetWithContext_def FindId_One_def CheckKeyAndValue_def CheckKey_def
        fresh_def)
  have h2: "CheckKeyAndValue ''a'' (Some [9::8 word]) = None"
    by (simp add: CheckKeyAndValue_def CheckKey_def)
  have h3: "fault (coll garbled) = None" by (simp add: garbled_def)
  have h4: "docs (coll garbled) ''a'' = Some \<lparr>K = ''a'', V = [0, 7]\<rparr>"
    by (simp add: garbled_def)
  have h5: "fst (Unmarshal (codec garbled) (V \<lparr>K = ''a'', V = [0, 7]\<rparr>) (Some [9]))
       = Some DeserializationError"
    by (simp add: garbled_def raw_codec_def)
  show ?thesis
    using get_not_found_only_when_absent [of fresh "''a''" "Some [9]"]
      get_not_found_only_when_absent [of garbled "''a''" "Some [9]"
        "\<lparr>K = ''a'', V = [0, 7]\<rparr>" DeserializationError]
      h1 h2 h3 h4 h5
    by simp
qed

text \<open>
  C9. When the key is present and the stored payload fails to unmarshal into
  the caller's destination, \<^verbatim>\<open>Get\<close> returns found = true together with the
  unmarshal error, and the destination is left as \<open>Unmarshal\<close> left it, which
  need not be what it was.
\<close>

theorem get_unmarshal_failure_is_found:
  assumes "k \<noteq> []" and "fault (coll cl) = None" and "docs (coll cl) k = Some doc"
    and "Unmarshal (codec cl) (V doc) (Some d) = (Some e, d')"
  shows "Get cl k (Some d) = (True, Some e, d')"
  using assms by (simp add: Get_def GetWithContext_def FindId_One_def CheckKeyAndValue_ok)

theorem get_unmarshal_failure_is_found_witness:
  "''a'' \<noteq> [] \<and> fault (coll garbled) = None
   \<and> docs (coll garbled) ''a'' = Some \<lparr>K = ''a'', V = [0, 7]\<rparr>
   \<and> Unmarshal (codec garbled) (V \<lparr>K = ''a'', V = [0, 7]\<rparr>) (Some [9])
       = (Some DeserializationError, Some [7])
   \<and> Get garbled ''a'' (Some [9]) = (True, Some DeserializationError, Some [7])"
proof -
  have h1: "''a'' \<noteq> []" by simp
  have h2: "fault (coll garbled) = None" by (simp add: garbled_def)
  have h3: "docs (coll garbled) ''a'' = Some \<lparr>K = ''a'', V = [0, 7]\<rparr>"
    by (simp add: garbled_def)
  have h4: "Unmarshal (codec garbled) (V \<lparr>K = ''a'', V = [0, 7]\<rparr>) (Some [9])
       = (Some DeserializationError, Some [7])"
    by (simp add: garbled_def raw_codec_def)
  show ?thesis using get_unmarshal_failure_is_found [OF h1 h2 h3 h4] h2 h3 h4 by simp
qed

section \<open>Deleting\<close>

text \<open>
  C6. For every non-empty key \<open>k\<close>, on a session that reaches the server:
  \<^verbatim>\<open>Delete(s,k)\<close> where \<open>k\<close> is absent returns nil and leaves the store as it
  was; \<^verbatim>\<open>Delete(s,k)\<close> returns nil where \<open>k\<close> is present too, and after it
  \<^verbatim>\<open>Get(s,k)\<close> returns \<open>(false, nil)\<close> with the destination untouched; and a
  second \<^verbatim>\<open>Delete(s,k)\<close> returns nil and changes nothing more.
\<close>

theorem delete_idempotent:
  assumes "k \<noteq> []" and "fault (coll cl) = None"
  shows "(docs (coll cl) k = None \<longrightarrow> Delete cl k = (None, cl))
     \<and> fst (Delete cl k) = None
     \<and> Get (snd (Delete cl k)) k (Some d) = (False, None, Some d)
     \<and> Delete (snd (Delete cl k)) k = (None, snd (Delete cl k))"
proof -
  let ?c1 = "snd (Delete cl k)"
  have r: "fst (Delete cl k) = None" "fault (coll ?c1) = None" "docs (coll ?c1) k = None"
    using Delete_result [OF assms] by simp_all
  have g: "Get ?c1 k (Some d) = (False, None, Some d)"
    using assms(1) r(2) r(3)
    by (simp add: Get_def GetWithContext_def FindId_One_def CheckKeyAndValue_ok)
  have again: "Delete ?c1 k = (None, ?c1)"
    using Delete_absent [OF assms(1) r(2) r(3)] .
  show ?thesis using assms r(1) g again by (simp add: Delete_absent)
qed

theorem delete_idempotent_witness:
  "''a'' \<noteq> [] \<and> fault (coll fresh) = None \<and> docs (coll fresh) ''a'' = None
   \<and> Delete fresh ''a'' = (None, fresh)
   \<and> fault (coll one_entry) = None \<and> docs (coll one_entry) ''a'' \<noteq> None
   \<and> fst (Delete one_entry ''a'') = None
   \<and> Get (snd (Delete one_entry ''a'')) ''a'' (Some [9]) = (False, None, Some [9])
   \<and> Delete (snd (Delete one_entry ''a'')) ''a'' = (None, snd (Delete one_entry ''a''))"
proof -
  have h1: "''a'' \<noteq> []" by simp
  have h2: "fault (coll fresh) = None" by (simp add: fresh_def)
  have h3: "docs (coll fresh) ''a'' = None" by (simp add: fresh_def)
  have h4: "fault (coll one_entry) = None" by (simp add: one_entry_def)
  have h5: "docs (coll one_entry) ''a'' \<noteq> None" by (simp add: one_entry_def)
  show ?thesis
    using delete_idempotent [OF h1 h2, of "[9]"] delete_idempotent [OF h1 h4, of "[9]"]
      h2 h3 h4 h5
    by simp
qed

section \<open>The context-taking variants\<close>

text \<open>
  C10. For every context, key and value the context-taking variants give the
  results of the plain ones, on every client: \<^verbatim>\<open>SetWithContext(ctx,k,v)\<close> is
  \<^verbatim>\<open>Set(k,v)\<close>, \<^verbatim>\<open>GetWithContext(ctx,k,out)\<close> is \<^verbatim>\<open>Get(k,out)\<close> and
  \<^verbatim>\<open>DeleteWithContext(ctx,k)\<close> is \<^verbatim>\<open>Delete(k)\<close>, in the value returned, the
  destination and the collection alike: the context never reaches the engine.
\<close>

theorem context_variants_equal_plain:
  "SetWithContext cl ctx k v = Set cl k v
   \<and> GetWithContext cl ctx k out = Get cl k out
   \<and> DeleteWithContext cl ctx k = Delete cl k"
  by (simp add: Set_def Get_def Delete_def SetWithContext_def GetWithContext_def
      DeleteWithContext_def)

end
